theory Spec2Isabelle
  imports Main
begin

section \<open>Data model\<close>

text \<open>
  The program is one Python module, \<^verbatim>\<open>streamlit_app.py\<close>, with three functions:
  \<^verbatim>\<open>process_zip_file\<close>, \<^verbatim>\<open>get_download_link\<close> and \<^verbatim>\<open>main\<close>.
  A pandas DataFrame is modelled by what the module uses of it: the ordered column labels
  and the ordered data rows. The type of a cell is left open (\<open>'c\<close>): the module never
  inspects a cell.
\<close>

type_synonym bytes = string

record 'c dataframe =
  columns :: "string list"
  rows :: "'c list list"

text \<open>\<^verbatim>\<open>len(df)\<close> is the number of data rows; \<^verbatim>\<open>df.head()\<close> keeps the first five.\<close>

definition len_df :: "'c dataframe \<Rightarrow> nat" where
  "len_df df = length (rows df)"

definition head_df :: "'c dataframe \<Rightarrow> 'c dataframe" where
  "head_df df = df\<lparr>rows := take 5 (rows df)\<rparr>"

section \<open>The column mapping and the renaming of headers\<close>

text \<open>
  Lines 52 to 62: the dict literal \<^verbatim>\<open>column_mapping\<close>, in insertion order.
\<close>

definition column_mapping :: "(string \<times> string) list" where
  "column_mapping =
    [(''Campaign Id'', ''Campaign__Campaign_Id''),
     (''Campaign Name'', ''campaign__name''),
     (''Entered'', ''campaign__campaign_start_date''),
     (''Sent Date'', ''Date__date''),
     (''Published'', ''Contacted_Customers''),
     (''Sent'', ''Msg_Sent''),
     (''Delivered'', ''Msg_Delivered''),
     (''Unique Opened'', ''Unique_Open_Count''),
     (''Unique Opened %'', ''Unique_Click_Count'')]"

text \<open>
  Line 69: \<^verbatim>\<open>{old: new for old, new in column_mapping.items() if old in df.columns}\<close>.
\<close>

definition rename_dict_of :: "string list \<Rightarrow> (string \<times> string) list" where
  "rename_dict_of cols = filter (\<lambda>(old, new). old \<in> set cols) column_mapping"

text \<open>
  \<^verbatim>\<open>df.rename(columns=d)\<close> with a dict \<open>d\<close>: every column label that is a key of \<open>d\<close> is
  replaced by its value, every other label is kept; the data is not touched.
\<close>

definition rename_label :: "(string \<times> string) list \<Rightarrow> string \<Rightarrow> string" where
  "rename_label d c = (case map_of d c of Some new \<Rightarrow> new | None \<Rightarrow> c)"

definition rename :: "'c dataframe \<Rightarrow> (string \<times> string) list \<Rightarrow> 'c dataframe" where
  "rename df d = df\<lparr>columns := map (rename_label d) (columns df)\<rparr>"

text \<open>Lines 69 and 70 together: the renaming stage of \<^verbatim>\<open>process_zip_file\<close>.\<close>

definition rename_headers :: "'c dataframe \<Rightarrow> 'c dataframe" where
  "rename_headers df = rename df (rename_dict_of (columns df))"

section \<open>Strings\<close>

text \<open>
  \<^verbatim>\<open>str.lower\<close> on the letters A to Z; every other character is kept. (Python lowers
  non-ASCII letters too, but none of them becomes one of the four characters of
  \<^verbatim>\<open>.csv\<close>, which is all the module asks of a lowered name.)
\<close>

definition lower_char :: "char \<Rightarrow> char" where
  "lower_char c =
    (case map_of (zip ''ABCDEFGHIJKLMNOPQRSTUVWXYZ'' ''abcdefghijklmnopqrstuvwxyz'') c of
       Some l \<Rightarrow> l
     | None \<Rightarrow> c)"

definition lower :: "string \<Rightarrow> string" where
  "lower s = map lower_char s"

text \<open>\<^verbatim>\<open>s.endswith(suf)\<close>.\<close>

definition endswith :: "string \<Rightarrow> string \<Rightarrow> bool" where
  "endswith s suf = (length suf \<le> length s \<and> drop (length s - length suf) s = suf)"

text \<open>\<^verbatim>\<open>str(n)\<close> for a natural number: its decimal digits.\<close>

definition digit_char :: "nat \<Rightarrow> char" where
  "digit_char d = ''0123456789'' ! (d mod 10)"

function str_nat :: "nat \<Rightarrow> string" where
  "str_nat n = (if n < 10 then [digit_char n] else str_nat (n div 10) @ [digit_char (n mod 10)])"
  by pat_completeness auto
termination
  by (relation "measure id") auto

declare str_nat.simps [simp del]

text \<open>
  The format specification \<^verbatim>\<open>{n:,}\<close> of line 122: the decimal digits in groups of three,
  separated by commas.
\<close>

function format_comma :: "nat \<Rightarrow> string" where
  "format_comma n =
    (if n < 1000 then str_nat n
     else format_comma (n div 1000) @ '','' @
          [digit_char (n div 100 mod 10), digit_char (n div 10 mod 10), digit_char (n mod 10)])"
  by pat_completeness auto
termination
  by (relation "measure id") auto

declare format_comma.simps [simp del]

section \<open>Time stamps\<close>

text \<open>
  \<^verbatim>\<open>datetime.now()\<close> reads the wall clock; the value it returns is an input of the model.
  \<^verbatim>\<open>strftime\<close> is modelled for the six directives the module uses: \<^verbatim>\<open>%Y\<close> is the
  year in decimal as the C library prints it, without padding (four digits from the year
  1000 on), and the other five are decimal fields padded with zeros to two digits. Any
  other character is copied.
\<close>

record datetime =
  year :: nat
  month :: nat
  day :: nat
  hour :: nat
  minute :: nat
  second :: nat

fun zero_pad :: "nat \<Rightarrow> string \<Rightarrow> string" where
  "zero_pad w s = replicate (w - length s) CHR ''0'' @ s"

definition directive :: "datetime \<Rightarrow> char \<Rightarrow> string" where
  "directive dt c =
    (if c = CHR ''Y'' then str_nat (year dt)
     else if c = CHR ''m'' then zero_pad 2 (str_nat (month dt))
     else if c = CHR ''d'' then zero_pad 2 (str_nat (day dt))
     else if c = CHR ''H'' then zero_pad 2 (str_nat (hour dt))
     else if c = CHR ''M'' then zero_pad 2 (str_nat (minute dt))
     else if c = CHR ''S'' then zero_pad 2 (str_nat (second dt))
     else [CHR ''%'', c])"

fun strftime :: "datetime \<Rightarrow> string \<Rightarrow> string" where
  "strftime dt (c # d # rest) =
    (if c = CHR ''%'' then directive dt d @ strftime dt rest else c # strftime dt (d # rest))"
| "strftime dt s = s"

section \<open>The libraries and the page\<close>

text \<open>
  The module calls \<^verbatim>\<open>zipfile\<close>, \<^verbatim>\<open>pandas\<close>, \<^verbatim>\<open>base64\<close> and \<^verbatim>\<open>streamlit\<close>. Their
  code is not part of the module, so what they compute is a parameter of the model:
  \<^item> \<open>ZipFile\<close> opens the uploaded bytes, or raises;
  \<^item> an open archive is the list of its entries in listing order, each a name and
    what reading it gives (its bytes, or an exception);
  \<^item> \<open>read_csv\<close> parses bytes into a DataFrame, or raises;
  \<^item> \<open>to_csv\<close> is \<^verbatim>\<open>df.to_csv(index=False)\<close>;
  \<^item> \<open>b64encode\<close> is \<^verbatim>\<open>base64.b64encode(s.encode()).decode()\<close>;
  \<^item> \<open>now\<close> is the value of \<^verbatim>\<open>datetime.now()\<close> at line 76.
  An exception is a value of type \<open>exn\<close>; a function that may raise returns
  \<open>exn + 'a\<close>.
\<close>

datatype exn = NameError string | TypeError string | LibraryError string

type_synonym zip_ref = "(string \<times> (exn + bytes)) list"

text \<open>
  \<^verbatim>\<open>zip_ref.namelist()\<close> gives the names in listing order. \<^verbatim>\<open>zip_ref.read(name)\<close> looks
  the name up in the dict that \<^verbatim>\<open>zipfile\<close> fills entry by entry in listing order, so for
  a name listed more than once it reads the last entry of that name.
\<close>

definition namelist :: "zip_ref \<Rightarrow> string list" where
  "namelist z = map fst z"

definition read :: "zip_ref \<Rightarrow> string \<Rightarrow> exn + bytes" where
  "read z name =
    (case map_of (rev z) name of
       Some r \<Rightarrow> r
     | None \<Rightarrow> Inl (LibraryError ''KeyError''))"

record 'c libs =
  ZipFile :: "bytes \<Rightarrow> exn + zip_ref"
  read_csv :: "bytes \<Rightarrow> exn + 'c dataframe"
  to_csv :: "'c dataframe \<Rightarrow> string"
  b64encode :: "string \<Rightarrow> string"
  now :: datetime

text \<open>
  What the run does to the outside, in order: the streamlit calls that put something on
  the page, and the reads of archive entries.
\<close>

datatype 'c effect =
    StTitle string
  | StWrite string
  | StWriteList string "string list"
  | StFileUploader string
  | StSuccess string
  | StButton string
  | StSpinner string
  | StError string
  | StInfo string
  | StSubheader string
  | StDataframe "'c dataframe"
  | StMarkdown string
  | StColumns nat
  | StMetric string string
  | ZipRead string

section \<open>process_zip_file\<close>

text \<open>Line 35: the test of the list comprehension.\<close>

definition is_csv :: "string \<Rightarrow> bool" where
  "is_csv f = endswith (lower f) ''.csv''"

text \<open>
  Lines 27 to 82. The result is the effects so far and either the exception raised or the
  value returned; \<open>None\<close> stands for the triple \<^verbatim>\<open>(None, None, None)\<close> of line 39.
\<close>

definition process_zip_file ::
  "'c libs \<Rightarrow> bytes \<Rightarrow> 'c effect list \<times> (exn + ('c dataframe \<times> string \<times> string) option)" where
  "process_zip_file L uploaded_zip_file =
    (case ZipFile L uploaded_zip_file of
       Inl e \<Rightarrow> ([], Inl e)
     | Inr zip_ref \<Rightarrow>
        (let file_list = namelist zip_ref;
             csv_files = filter is_csv file_list
         in case csv_files of
              [] \<Rightarrow> ([StError ''No CSV files found in the ZIP archive''], Inr None)
            | csv_file # _ \<Rightarrow>
               (let fx = [StInfo (''Found CSV file: '' @ csv_file), ZipRead csv_file]
                in case read zip_ref csv_file of
                     Inl e \<Rightarrow> (fx, Inl e)
                   | Inr csv_content \<Rightarrow>
                      (case read_csv L csv_content of
                         Inl e \<Rightarrow> (fx, Inl e)
                       | Inr df \<Rightarrow>
                          (let rename_dict = rename_dict_of (columns df);
                               df' = rename df rename_dict;
                               timestamp = strftime (now L) ''%Y%m%d_%H%M%S'';
                               output_filename = ''processed_'' @ timestamp @ ''.csv'';
                               csv_string = to_csv L df'
                           in (fx @ [StWriteList ''Original columns:'' (columns df),
                                     StWriteList ''Renamed columns:'' (columns df')],
                               Inr (Some (df', csv_string, output_filename))))))))"

section \<open>get_download_link and main\<close>

definition get_download_link :: "'c libs \<Rightarrow> string \<Rightarrow> string \<Rightarrow> string" where
  "get_download_link L csv_string filename =
    ''<a href=\"data:file/csv;base64,'' @ b64encode L csv_string @ ''\" download=\"'' @ filename @
    ''\">Download Processed CSV</a>''"

text \<open>
  Name resolution. A name read in \<^verbatim>\<open>main\<close> is looked up in the local variables of
  \<^verbatim>\<open>main\<close>, then in the names bound at module level, then in the builtins; a name bound
  nowhere raises \<^verbatim>\<open>NameError\<close>. The local variables of \<^verbatim>\<open>process_zip_file\<close> are not
  in any of the three. A value is kept only as far as \<^verbatim>\<open>len\<close> needs it.
\<close>

datatype 'c pyobj =
    PyFrame "'c dataframe"
  | PyStr string
  | PyDict "(string \<times> string) list"
  | PyOther

type_synonym 'c scope = "(string \<times> 'c pyobj) list"

definition module_scope :: "'c scope" where
  "module_scope =
    [(''zipfile'', PyOther), (''pd'', PyOther), (''os'', PyOther), (''io'', PyOther),
     (''base64'', PyOther), (''st'', PyOther), (''datetime'', PyOther),
     (''process_zip_file'', PyOther), (''get_download_link'', PyOther), (''main'', PyOther)]"

definition builtin_scope :: "'c scope" where
  "builtin_scope = [(''len'', PyOther)]"

definition load_name :: "'c scope \<Rightarrow> string \<Rightarrow> exn + 'c pyobj" where
  "load_name local_scope name =
    (case map_of (local_scope @ module_scope @ builtin_scope) name of
       Some v \<Rightarrow> Inr v
     | None \<Rightarrow> Inl (NameError name))"

definition py_len :: "'c pyobj \<Rightarrow> exn + nat" where
  "py_len v =
    (case v of
       PyFrame df \<Rightarrow> Inr (len_df df)
     | PyStr s \<Rightarrow> Inr (length s)
     | PyDict d \<Rightarrow> Inr (length d)
     | PyOther \<Rightarrow> Inl (TypeError ''object has no len()''))"

text \<open>
  Lines 91 to 124. The two inputs of the page are the uploaded file (if any) and whether
  the button is pressed.
\<close>

definition main :: "'c libs \<Rightarrow> bytes option \<Rightarrow> bool \<Rightarrow> 'c effect list \<times> (exn + unit)" where
  "main L uploaded_file pressed =
    (let fx0 = [StTitle ''ZIP CSV Processor'',
                StWrite ''Upload a ZIP file containing a CSV to process and rename the headers.'',
                StFileUploader ''Choose a ZIP file'']
     in case uploaded_file of
          None \<Rightarrow> (fx0, Inr ())
        | Some content \<Rightarrow>
           (let fx1 = fx0 @ [StSuccess ''File uploaded successfully!'', StButton ''Process ZIP File'']
            in if \<not> pressed then (fx1, Inr ())
               else
                (let fx2 = fx1 @ [StSpinner ''Processing...''] @ fst (process_zip_file L content)
                 in case snd (process_zip_file L content) of
                      Inl e \<Rightarrow> (fx2, Inl e)
                    | Inr None \<Rightarrow> (fx2, Inr ())
                    | Inr (Some (processed_df, csv_string, filename)) \<Rightarrow>
                       (let local_scope =
                              [(''uploaded_file'', PyOther), (''processed_df'', PyFrame processed_df),
                               (''csv_string'', PyStr csv_string), (''filename'', PyStr filename),
                               (''col1'', PyOther), (''col2'', PyOther)];
                            fx3 = fx2 @
                              [StSubheader ''Preview of Processed Data'',
                               StDataframe (head_df processed_df),
                               StSubheader ''Download Result'',
                               StMarkdown (get_download_link L csv_string filename),
                               StSubheader ''Data Statistics'',
                               StWrite (''Total rows: '' @ str_nat (len_df processed_df)),
                               StWrite (''Total columns: '' @ str_nat (length (columns processed_df))),
                               StColumns 2,
                               StMetric ''Rows Processed'' (format_comma (len_df processed_df))]
                        in case load_name local_scope ''rename_dict'' of
                             Inl e \<Rightarrow> (fx3, Inl e)
                           | Inr v \<Rightarrow>
                              (case py_len v of
                                 Inl e \<Rightarrow> (fx3, Inl e)
                               | Inr n \<Rightarrow> (fx3 @ [StMetric ''Columns Renamed'' (str_nat n)], Inr ()))))))"

section \<open>Observations and a sample run\<close>

text \<open>The names of the archive entries a run reads, in order.\<close>

fun zip_reads :: "'c effect list \<Rightarrow> string list" where
  "zip_reads [] = []"
| "zip_reads (ZipRead n # fx) = n # zip_reads fx"
| "zip_reads (_ # fx) = zip_reads fx"

text \<open>
  A sample archive with three entries, two of them CSV files, a sample archive with no
  CSV file, and sample libraries: the upload \<open>PK\<close> opens as the first archive, the upload
  \<open>PK-plain\<close> as the second, and the bytes of the first CSV entry parse into a table of
  three columns and one row.
\<close>

definition example_csv :: bytes where
  "example_csv = ''Campaign Id,Foo,Sent'' @ [CHR 0x0A] @ ''7,x,3'' @ [CHR 0x0A]"

definition example_zip :: zip_ref where
  "example_zip =
    [(''readme.txt'', Inr ''a,b''), (''Report.CSV'', Inr example_csv), (''other.csv'', Inr ''a,b'')]"

definition example_zip_plain :: zip_ref where
  "example_zip_plain =
    [(''readme.txt'', Inr ''text''), (''data.csv.bak'', Inr ''text''), (''csv'', Inr ''text'')]"

definition example_libs :: "string libs" where
  "example_libs =
    \<lparr>ZipFile = (\<lambda>b. if b = ''PK'' then Inr example_zip
                     else if b = ''PK-plain'' then Inr example_zip_plain
                     else Inl (LibraryError ''BadZipFile'')),
     read_csv = (\<lambda>b. if b = example_csv
                      then Inr \<lparr>columns = [''Campaign Id'', ''Foo'', ''Sent''], rows = [[''7'', ''x'', ''3'']]\<rparr>
                      else Inl (LibraryError ''ParserError'')),
     to_csv = (\<lambda>df. ''Campaign__Campaign_Id,Foo,Msg_Sent'' @ [CHR 0x0A] @ ''7,x,3'' @ [CHR 0x0A]),
     b64encode = (\<lambda>s. ''QQ==''),
     now = \<lparr>year = 2024, month = 3, day = 5, hour = 7, minute = 8, second = 9\<rparr>\<rparr>"

text \<open>
  A sample archive that lists the name \<^verbatim>\<open>a.csv\<close> twice, with different bytes, and sample
  libraries for it: the upload \<open>PK-dup\<close> opens as that archive, the bytes of its first entry
  parse into a table with the one column Sent, and those of its second entry into a table
  with the one column Delivered.
\<close>

definition example_csv_first :: bytes where
  "example_csv_first = ''Sent'' @ [CHR 0x0A] @ ''1'' @ [CHR 0x0A]"

definition example_csv_second :: bytes where
  "example_csv_second = ''Delivered'' @ [CHR 0x0A] @ ''2'' @ [CHR 0x0A]"

definition example_zip_dup :: zip_ref where
  "example_zip_dup = [(''a.csv'', Inr example_csv_first), (''a.csv'', Inr example_csv_second)]"

definition example_libs_dup :: "string libs" where
  "example_libs_dup =
    \<lparr>ZipFile = (\<lambda>b. if b = ''PK-dup'' then Inr example_zip_dup
                     else Inl (LibraryError ''BadZipFile'')),
     read_csv = (\<lambda>b. if b = example_csv_first
                      then Inr \<lparr>columns = [''Sent''], rows = [[''1'']]\<rparr>
                      else if b = example_csv_second
                      then Inr \<lparr>columns = [''Delivered''], rows = [[''2'']]\<rparr>
                      else Inl (LibraryError ''ParserError'')),
     to_csv = (\<lambda>df. if columns df = [''Msg_Sent'']
                     then ''Msg_Sent'' @ [CHR 0x0A] @ ''1'' @ [CHR 0x0A]
                     else ''Msg_Delivered'' @ [CHR 0x0A] @ ''2'' @ [CHR 0x0A]),
     b64encode = (\<lambda>s. ''QQ==''),
     now = \<lparr>year = 2024, month = 3, day = 5, hour = 7, minute = 8, second = 9\<rparr>\<rparr>"

section \<open>Properties of the renaming stage\<close>

lemma distinct_keys: "distinct (map fst column_mapping)"
  by (simp add: column_mapping_def)

lemma map_of_filter_key:
  "map_of (filter (\<lambda>(k, v). P k) xs) c = (if P c then map_of xs c else None)"
  by (induction xs) auto

lemma map_of_rename_dict_of:
  "map_of (rename_dict_of cols) c = (if c \<in> set cols then map_of column_mapping c else None)"
  unfolding rename_dict_of_def by (rule map_of_filter_key)

lemma rename_label_rename_dict_of:
  "c \<in> set cols \<Longrightarrow> rename_label (rename_dict_of cols) c = rename_label column_mapping c"
  by (simp add: rename_label_def map_of_rename_dict_of)

lemma columns_rename_headers:
  "columns (rename_headers df) = map (rename_label column_mapping) (columns df)"
  by (simp add: rename_headers_def rename_def rename_label_rename_dict_of)

lemma rows_rename_headers: "rows (rename_headers df) = rows df"
  by (simp add: rename_headers_def rename_def)

lemma target_not_key_aux:
  "t \<in> snd ` set column_mapping \<Longrightarrow> map_of column_mapping t = None"
  by (simp add: column_mapping_def) (elim disjE; simp)

lemma target_not_key:
  "map_of column_mapping c = Some t \<Longrightarrow> map_of column_mapping t = None"
  by (rule target_not_key_aux) (metis map_of_SomeD image_eqI snd_conv)

lemma rename_label_idem:
  "rename_label column_mapping (rename_label column_mapping c) = rename_label column_mapping c"
  by (cases "map_of column_mapping c") (auto simp: rename_label_def dest: target_not_key)

lemma length_filter_keys:
  "distinct (map fst xs) \<Longrightarrow>
   length (filter (\<lambda>(k, v). k \<in> A) xs) = card (A \<inter> set (map fst xs))"
proof (induction xs)
  case Nil
  then show ?case by simp
next
  case (Cons p xs)
  obtain k v where p: "p = (k, v)" by (cases p)
  from Cons.prems p have nin: "k \<notin> set (map fst xs)" and d: "distinct (map fst xs)" by auto
  have fin: "finite (A \<inter> set (map fst xs))" by simp
  show ?case
  proof (cases "k \<in> A")
    case True
    then have "A \<inter> set (map fst (p # xs)) = insert k (A \<inter> set (map fst xs))"
      using p by auto
    moreover have "k \<notin> A \<inter> set (map fst xs)" using nin by simp
    ultimately show ?thesis using Cons.IH [OF d] True p fin by simp
  next
    case False
    then have "A \<inter> set (map fst (p # xs)) = A \<inter> set (map fst xs)"
      using p by auto
    then show ?thesis using Cons.IH [OF d] False p by simp
  qed
qed

text \<open>
  C2. The number of entries of \<^verbatim>\<open>rename_dict\<close> (the renamed-header count) is the size of
  the intersection of the set of column labels of the parsed table with the set of keys of
  \<^verbatim>\<open>column_mapping\<close>. For the headers Campaign Id, Foo, Sent the count is 2 and the
  headers after renaming are Campaign__Campaign_Id, Foo, Msg_Sent, in that order.
\<close>

theorem renamed_count:
  "length (rename_dict_of (columns df)) = card (set (columns df) \<inter> set (map fst column_mapping))
   \<and> length (rename_dict_of [''Campaign Id'', ''Foo'', ''Sent'']) = 2
   \<and> columns (rename_headers \<lparr>columns = [''Campaign Id'', ''Foo'', ''Sent''], rows = rs\<rparr>)
       = [''Campaign__Campaign_Id'', ''Foo'', ''Msg_Sent'']"
proof (intro conjI)
  show "length (rename_dict_of (columns df)) = card (set (columns df) \<inter> set (map fst column_mapping))"
    unfolding rename_dict_of_def by (rule length_filter_keys [OF distinct_keys])
  show "length (rename_dict_of [''Campaign Id'', ''Foo'', ''Sent'']) = 2"
    by (simp add: rename_dict_of_def column_mapping_def)
  show "columns (rename_headers \<lparr>columns = [''Campaign Id'', ''Foo'', ''Sent''], rows = rs\<rparr>)
       = [''Campaign__Campaign_Id'', ''Foo'', ''Msg_Sent'']"
    by (simp add: rename_headers_def rename_def rename_dict_of_def column_mapping_def rename_label_def)
qed

lemma rename_label_key:
  "c \<in> set (map fst column_mapping) \<Longrightarrow> map_of column_mapping c = Some (rename_label column_mapping c)"
  by (cases "map_of column_mapping c") (auto simp: rename_label_def map_of_eq_None_iff)

lemma rename_label_not_key:
  "c \<notin> set (map fst column_mapping) \<Longrightarrow> rename_label column_mapping c = c"
  by (cases "map_of column_mapping c") (auto simp: rename_label_def dest: map_of_SomeD intro: rev_image_eqI)

text \<open>
  C5. Renaming keeps the number of columns; at every position, a label that is a key of
  \<^verbatim>\<open>column_mapping\<close> (equality of strings, so case-sensitive) is replaced by the value of
  that key and any other label is kept; the data rows are unchanged, and nothing but the
  labels changes.
\<close>

theorem rename_headers_frame:
  "length (columns (rename_headers df)) = length (columns df)
   \<and> (\<forall>i < length (columns df).
        (columns df ! i \<in> set (map fst column_mapping) \<longrightarrow>
           map_of column_mapping (columns df ! i) = Some (columns (rename_headers df) ! i))
      \<and> (columns df ! i \<notin> set (map fst column_mapping) \<longrightarrow>
           columns (rename_headers df) ! i = columns df ! i))
   \<and> rows (rename_headers df) = rows df
   \<and> rename_headers df = df\<lparr>columns := columns (rename_headers df)\<rparr>"
proof (intro conjI allI impI)
  show "length (columns (rename_headers df)) = length (columns df)"
    by (simp add: columns_rename_headers)
  show "rows (rename_headers df) = rows df"
    by (rule rows_rename_headers)
  show "rename_headers df = df\<lparr>columns := columns (rename_headers df)\<rparr>"
    by (simp add: rename_headers_def rename_def)
next
  fix i assume "i < length (columns df)" "columns df ! i \<in> set (map fst column_mapping)"
  then show "map_of column_mapping (columns df ! i) = Some (columns (rename_headers df) ! i)"
    by (simp add: columns_rename_headers rename_label_key)
next
  fix i assume "i < length (columns df)" "columns df ! i \<notin> set (map fst column_mapping)"
  then show "columns (rename_headers df) ! i = columns df ! i"
    by (simp add: columns_rename_headers rename_label_not_key)
qed

theorem rename_headers_frame_witness:
  "(let df = \<lparr>columns = [''sent'', ''Sent'', ''Sent '', ''SENT'', ''Delivered''], rows = [[1, 2, 3, 4, 5::nat]]\<rparr>
    in columns (rename_headers df) = [''sent'', ''Msg_Sent'', ''Sent '', ''SENT'', ''Msg_Delivered'']
     \<and> length (columns (rename_headers df)) = 5
     \<and> rows (rename_headers df) = [[1, 2, 3, 4, 5]])"
  using rename_headers_frame [of "\<lparr>columns = [''sent'', ''Sent'', ''Sent '', ''SENT'', ''Delivered''], rows = [[1, 2, 3, 4, 5::nat]]\<rparr>"]
  by (simp add: rename_headers_def rename_def rename_dict_of_def column_mapping_def rename_label_def)

text \<open>
  C6. Renaming twice gives the same table as renaming once: after one pass no label is a
  key of \<^verbatim>\<open>column_mapping\<close> any more, so the second \<^verbatim>\<open>rename_dict\<close> is empty.
\<close>

theorem rename_headers_idempotent:
  "rename_headers (rename_headers df) = rename_headers df
   \<and> rename_dict_of (columns (rename_headers df)) = []"
proof
  have eq: "rename_headers d = d\<lparr>columns := map (rename_label column_mapping) (columns d)\<rparr>" for d :: "'a dataframe"
    using columns_rename_headers [of d] by (simp add: rename_headers_def rename_def)
  show "rename_headers (rename_headers df) = rename_headers df"
    by (simp add: eq [of "rename_headers df"] columns_rename_headers rename_label_idem)
  have "k \<notin> set (columns (rename_headers df))" if "k \<in> set (map fst column_mapping)" for k
  proof
    assume "k \<in> set (columns (rename_headers df))"
    then obtain c where c: "k = rename_label column_mapping c"
      by (auto simp: columns_rename_headers)
    from that have "map_of column_mapping k \<noteq> None" by (simp add: map_of_eq_None_iff)
    moreover have "map_of column_mapping k = None \<or> k = c"
      unfolding c by (cases "map_of column_mapping c") (auto simp: rename_label_def dest: target_not_key)
    ultimately have "k = c" by auto
    with c have "rename_label column_mapping k = k" by simp
    moreover from that have "map_of column_mapping k = Some (rename_label column_mapping k)"
      by (rule rename_label_key)
    ultimately have "map_of column_mapping k = Some k" by simp
    then have "map_of column_mapping k = None" by (rule target_not_key)
    with \<open>map_of column_mapping k \<noteq> None\<close> show False by simp
  qed
  then show "rename_dict_of (columns (rename_headers df)) = []"
    unfolding rename_dict_of_def by (fastforce simp: filter_empty_conv)
qed

text \<open>
  C8. \<^verbatim>\<open>column_mapping\<close> is the table of the specification: nine pairs with nine
  different source headers, each mapped to the target the table gives, Unique Opened %
  to Unique_Click_Count among them; and whatever the columns of the table are, the dict
  used for renaming holds pairs of \<^verbatim>\<open>column_mapping\<close> only.
\<close>

theorem column_mapping_table:
  "map_of column_mapping ''Campaign Id'' = Some ''Campaign__Campaign_Id''
   \<and> map_of column_mapping ''Campaign Name'' = Some ''campaign__name''
   \<and> map_of column_mapping ''Entered'' = Some ''campaign__campaign_start_date''
   \<and> map_of column_mapping ''Sent Date'' = Some ''Date__date''
   \<and> map_of column_mapping ''Published'' = Some ''Contacted_Customers''
   \<and> map_of column_mapping ''Sent'' = Some ''Msg_Sent''
   \<and> map_of column_mapping ''Delivered'' = Some ''Msg_Delivered''
   \<and> map_of column_mapping ''Unique Opened'' = Some ''Unique_Open_Count''
   \<and> map_of column_mapping ''Unique Opened %'' = Some ''Unique_Click_Count''
   \<and> length column_mapping = 9
   \<and> distinct (map fst column_mapping)
   \<and> set (rename_dict_of cols) \<subseteq> set column_mapping"
  by (simp add: column_mapping_def rename_dict_of_def)


section \<open>The output file name\<close>

lemma str_nat_lt10: "n < 10 \<Longrightarrow> str_nat n = [digit_char n]"
  by (subst str_nat.simps) simp

lemma str_nat_lt100: "10 \<le> n \<Longrightarrow> n < 100 \<Longrightarrow> str_nat n = [digit_char (n div 10), digit_char (n mod 10)]"
  by (subst str_nat.simps) (simp add: str_nat_lt10)

lemma str_nat_lt1000:
  "100 \<le> n \<Longrightarrow> n < 1000 \<Longrightarrow>
   str_nat n = [digit_char (n div 100), digit_char (n div 10 mod 10), digit_char (n mod 10)]"
  by (subst str_nat.simps) (simp add: str_nat_lt100 div_mult2_eq [symmetric])

lemma str_nat_lt10000:
  "1000 \<le> n \<Longrightarrow> n < 10000 \<Longrightarrow>
   str_nat n = [digit_char (n div 1000), digit_char (n div 100 mod 10),
                digit_char (n div 10 mod 10), digit_char (n mod 10)]"
  by (subst str_nat.simps) (simp add: str_nat_lt1000 div_mult2_eq [symmetric])

lemma digit_char_0: "digit_char 0 = CHR ''0''"
  by (simp add: digit_char_def)

lemma zero_pad_2:
  "n < 100 \<Longrightarrow> zero_pad 2 (str_nat n) = [digit_char (n div 10), digit_char (n mod 10)]"
  by (cases "n < 10") (simp_all add: str_nat_lt10 str_nat_lt100 digit_char_0)

lemma strftime_stamp:
  "strftime dt ''%Y%m%d_%H%M%S'' =
     str_nat (year dt) @ zero_pad 2 (str_nat (month dt)) @ zero_pad 2 (str_nat (day dt))
     @ ''_'' @ zero_pad 2 (str_nat (hour dt)) @ zero_pad 2 (str_nat (minute dt))
     @ zero_pad 2 (str_nat (second dt))"
  by (simp add: directive_def del: zero_pad.simps)

lemma process_zip_file_filename:
  "snd (process_zip_file L b) = Inr (Some (df, s, fn)) \<Longrightarrow>
   fn = ''processed_'' @ strftime (now L) ''%Y%m%d_%H%M%S'' @ ''.csv''"
  by (auto simp: process_zip_file_def Let_def split: sum.splits list.splits)

text \<open>
  C9. When \<^verbatim>\<open>process_zip_file\<close> returns a table, the file name it returns is
  \<^verbatim>\<open>processed_\<close>, then the four digits of the year, the two digits each of month and
  day, an underscore, the two digits each of hour, minute and second of the time read
  from the clock at line 76, then \<^verbatim>\<open>.csv\<close>.
\<close>

theorem output_filename_format:
  assumes "snd (process_zip_file L b) = Inr (Some (df, s, fn))"
    and "1000 \<le> year (now L)" and "year (now L) \<le> 9999"
    and "month (now L) \<le> 12" and "day (now L) \<le> 31"
    and "hour (now L) < 24" and "minute (now L) < 60" and "second (now L) < 60"
  shows "fn = ''processed_'' @
     [digit_char (year (now L) div 1000), digit_char (year (now L) div 100 mod 10),
      digit_char (year (now L) div 10 mod 10), digit_char (year (now L) mod 10),
      digit_char (month (now L) div 10), digit_char (month (now L) mod 10),
      digit_char (day (now L) div 10), digit_char (day (now L) mod 10),
      CHR ''_'',
      digit_char (hour (now L) div 10), digit_char (hour (now L) mod 10),
      digit_char (minute (now L) div 10), digit_char (minute (now L) mod 10),
      digit_char (second (now L) div 10), digit_char (second (now L) mod 10)] @ ''.csv''"
proof -
  have y: "str_nat (year (now L)) =
      [digit_char (year (now L) div 1000), digit_char (year (now L) div 100 mod 10),
       digit_char (year (now L) div 10 mod 10), digit_char (year (now L) mod 10)]"
    using assms(2,3) by (intro str_nat_lt10000) auto
  have m: "zero_pad 2 (str_nat (month (now L))) = [digit_char (month (now L) div 10), digit_char (month (now L) mod 10)]"
    using assms(4) by (intro zero_pad_2) auto
  have d: "zero_pad 2 (str_nat (day (now L))) = [digit_char (day (now L) div 10), digit_char (day (now L) mod 10)]"
    using assms(5) by (intro zero_pad_2) auto
  have h: "zero_pad 2 (str_nat (hour (now L))) = [digit_char (hour (now L) div 10), digit_char (hour (now L) mod 10)]"
    using assms(6) by (intro zero_pad_2) auto
  have mi: "zero_pad 2 (str_nat (minute (now L))) = [digit_char (minute (now L) div 10), digit_char (minute (now L) mod 10)]"
    using assms(7) by (intro zero_pad_2) auto
  have se: "zero_pad 2 (str_nat (second (now L))) = [digit_char (second (now L) div 10), digit_char (second (now L) mod 10)]"
    using assms(8) by (intro zero_pad_2) auto
  show ?thesis
    unfolding process_zip_file_filename [OF assms(1)] strftime_stamp y m d h mi se by simp
qed

lemma example_run:
  "process_zip_file example_libs ''PK'' =
    ([StInfo ''Found CSV file: Report.CSV'', ZipRead ''Report.CSV'',
      StWriteList ''Original columns:'' [''Campaign Id'', ''Foo'', ''Sent''],
      StWriteList ''Renamed columns:'' [''Campaign__Campaign_Id'', ''Foo'', ''Msg_Sent'']],
     Inr (Some (\<lparr>columns = [''Campaign__Campaign_Id'', ''Foo'', ''Msg_Sent''], rows = [[''7'', ''x'', ''3'']]\<rparr>,
                ''Campaign__Campaign_Id,Foo,Msg_Sent'' @ [CHR 0x0A] @ ''7,x,3'' @ [CHR 0x0A],
                ''processed_20240305_070809.csv'')))"
  by (simp add: process_zip_file_def example_libs_def example_zip_def example_csv_def
      namelist_def read_def is_csv_def endswith_def lower_def lower_char_def rename_def rename_dict_of_def column_mapping_def rename_label_def
      directive_def str_nat_lt10 str_nat_lt10000 digit_char_def Let_def)

theorem output_filename_format_witness:
  "snd (process_zip_file example_libs ''PK'') =
     Inr (Some (\<lparr>columns = [''Campaign__Campaign_Id'', ''Foo'', ''Msg_Sent''], rows = [[''7'', ''x'', ''3'']]\<rparr>,
                ''Campaign__Campaign_Id,Foo,Msg_Sent'' @ [CHR 0x0A] @ ''7,x,3'' @ [CHR 0x0A],
                ''processed_20240305_070809.csv''))
   \<and> now example_libs = \<lparr>year = 2024, month = 3, day = 5, hour = 7, minute = 8, second = 9\<rparr>
   \<and> ''processed_20240305_070809.csv'' = ''processed_'' @ ''20240305_070809'' @ ''.csv''"
  using output_filename_format [of example_libs "''PK''"
      "\<lparr>columns = [''Campaign__Campaign_Id'', ''Foo'', ''Msg_Sent''], rows = [[''7'', ''x'', ''3'']]\<rparr>"
      "''Campaign__Campaign_Id,Foo,Msg_Sent'' @ [CHR 0x0A] @ ''7,x,3'' @ [CHR 0x0A]"
      "''processed_20240305_070809.csv''"]
  by (simp add: example_run) (simp add: example_libs_def)


section \<open>Selecting the entry\<close>

lemma lower_char_dot: "lower_char c = CHR ''.'' \<longleftrightarrow> c = CHR ''.''"
  by (auto simp: lower_char_def split: if_splits)

lemma lower_char_c: "lower_char c = CHR ''c'' \<longleftrightarrow> c = CHR ''c'' \<or> c = CHR ''C''"
  by (auto simp: lower_char_def split: if_splits)

lemma lower_char_s: "lower_char c = CHR ''s'' \<longleftrightarrow> c = CHR ''s'' \<or> c = CHR ''S''"
  by (auto simp: lower_char_def split: if_splits)

lemma lower_char_v: "lower_char c = CHR ''v'' \<longleftrightarrow> c = CHR ''v'' \<or> c = CHR ''V''"
  by (auto simp: lower_char_def split: if_splits)

lemma is_csv_suffix:
  "is_csv (stem @ [c1, c2, c3, c4]) \<longleftrightarrow>
     c1 = CHR ''.'' \<and> (c2 = CHR ''c'' \<or> c2 = CHR ''C'') \<and> (c3 = CHR ''s'' \<or> c3 = CHR ''S'')
     \<and> (c4 = CHR ''v'' \<or> c4 = CHR ''V'')"
  by (simp add: is_csv_def endswith_def lower_def lower_char_dot lower_char_c lower_char_s lower_char_v)

lemma is_csv_length: "is_csv f \<Longrightarrow> 4 \<le> length f"
  by (simp add: is_csv_def endswith_def lower_def)

lemma filter_is_csv_first:
  "\<forall>f\<in>set pre. \<not> is_csv f \<Longrightarrow> is_csv n \<Longrightarrow> filter is_csv (pre @ n # post) = n # filter is_csv post"
  by (induction pre) auto

lemma process_zip_file_selected:
  assumes "ZipFile L b = Inr z" and "filter is_csv (namelist z) = n # others"
  shows "process_zip_file L b =
    (case read z n of
       Inl e \<Rightarrow> ([StInfo (''Found CSV file: '' @ n), ZipRead n], Inl e)
     | Inr csv_content \<Rightarrow>
        (case read_csv L csv_content of
           Inl e \<Rightarrow> ([StInfo (''Found CSV file: '' @ n), ZipRead n], Inl e)
         | Inr df \<Rightarrow>
            ([StInfo (''Found CSV file: '' @ n), ZipRead n,
              StWriteList ''Original columns:'' (columns df),
              StWriteList ''Renamed columns:'' (columns (rename_headers df))],
             Inr (Some (rename_headers df, to_csv L (rename_headers df),
                        ''processed_'' @ strftime (now L) ''%Y%m%d_%H%M%S'' @ ''.csv'')))))"
  using assms
  by (simp add: process_zip_file_def Let_def rename_headers_def split: sum.splits)

lemma read_first_unique:
  assumes "\<forall>e\<in>set pre. \<not> is_csv (fst e)" and "is_csv n" and "n \<notin> fst ` set post"
  shows "read (pre @ (n, r) # post) n = r"
proof -
  have "map_of (rev post) n = None"
    using assms(3) by (simp add: map_of_eq_None_iff)
  then show ?thesis
    by (simp add: read_def map_add_def)
qed

text \<open>
  C3. For an archive that opens, whose listing has an entry named \<open>n\<close>, with \<open>n\<close> ending in
  \<^verbatim>\<open>.csv\<close> (in any mix of upper and lower case) and no such name before it: the run reads
  once, by the name \<open>n\<close>; and when no later entry of the listing has the name \<open>n\<close> too, the
  outcome of the run is the outcome of parsing the bytes of that first entry (renamed,
  serialized and named when the parse succeeds), whatever other entries follow. A name
  passes the test exactly when its last four characters are a dot, c or C, s or S, v or V.
\<close>

theorem first_csv_name_selected:
  assumes "ZipFile L b = Inr z"
    and "z = pre @ (n, r) # post"
    and "\<forall>e\<in>set pre. \<not> is_csv (fst e)"
    and "is_csv n"
  shows "zip_reads (fst (process_zip_file L b)) = [n]
    \<and> (n \<notin> fst ` set post \<longrightarrow>
        snd (process_zip_file L b) =
          (case r of
             Inl e \<Rightarrow> Inl e
           | Inr csv_content \<Rightarrow>
              (case read_csv L csv_content of
                 Inl e \<Rightarrow> Inl e
               | Inr df \<Rightarrow>
                  Inr (Some (rename_headers df, to_csv L (rename_headers df),
                             ''processed_'' @ strftime (now L) ''%Y%m%d_%H%M%S'' @ ''.csv'')))))
    \<and> (is_csv (stem @ [c1, c2, c3, c4]) \<longleftrightarrow>
         c1 = CHR ''.'' \<and> (c2 = CHR ''c'' \<or> c2 = CHR ''C'') \<and> (c3 = CHR ''s'' \<or> c3 = CHR ''S'')
         \<and> (c4 = CHR ''v'' \<or> c4 = CHR ''V''))
    \<and> (is_csv f \<longrightarrow> 4 \<le> length f)"
proof -
  have names: "namelist z = map fst pre @ n # map fst post"
    by (simp add: namelist_def assms(2))
  have "\<forall>f\<in>set (map fst pre). \<not> is_csv f"
    using assms(3) by simp
  then have sel: "filter is_csv (namelist z) = n # filter is_csv (map fst post)"
    unfolding names using assms(4) by (rule filter_is_csv_first)
  note run = process_zip_file_selected [OF assms(1) sel]
  have reads: "zip_reads (fst (process_zip_file L b)) = [n]"
    unfolding run by (simp split: sum.splits)
  have outcome: "snd (process_zip_file L b) =
          (case r of
             Inl e \<Rightarrow> Inl e
           | Inr csv_content \<Rightarrow>
              (case read_csv L csv_content of
                 Inl e \<Rightarrow> Inl e
               | Inr df \<Rightarrow>
                  Inr (Some (rename_headers df, to_csv L (rename_headers df),
                             ''processed_'' @ strftime (now L) ''%Y%m%d_%H%M%S'' @ ''.csv''))))"
    if "n \<notin> fst ` set post"
  proof -
    have "read z n = r"
      unfolding assms(2) using assms(3,4) that by (rule read_first_unique)
    then show ?thesis
      unfolding run by (simp split: sum.splits)
  qed
  from reads outcome show ?thesis
    using is_csv_suffix [of stem c1 c2 c3 c4] is_csv_length [of f] by blast
qed

theorem first_csv_name_selected_witness:
  "ZipFile example_libs ''PK'' = Inr example_zip
   \<and> example_zip = [(''readme.txt'', Inr ''a,b'')] @ (''Report.CSV'', Inr example_csv) # [(''other.csv'', Inr ''a,b'')]
   \<and> \<not> is_csv ''readme.txt''
   \<and> is_csv ''Report.CSV'' \<and> is_csv ''other.csv''
   \<and> ''Report.CSV'' \<notin> fst ` set [(''other.csv'', Inr ''a,b'' :: exn + bytes)]
   \<and> zip_reads (fst (process_zip_file example_libs ''PK'')) = [''Report.CSV'']
   \<and> snd (process_zip_file example_libs ''PK'') =
       Inr (Some (\<lparr>columns = [''Campaign__Campaign_Id'', ''Foo'', ''Msg_Sent''], rows = [[''7'', ''x'', ''3'']]\<rparr>,
                ''Campaign__Campaign_Id,Foo,Msg_Sent'' @ [CHR 0x0A] @ ''7,x,3'' @ [CHR 0x0A],
                ''processed_20240305_070809.csv''))"
proof -
  have h1: "ZipFile example_libs ''PK'' = Inr example_zip"
    by (simp add: example_libs_def)
  have h2: "example_zip = [(''readme.txt'', Inr ''a,b'')] @ (''Report.CSV'', Inr example_csv) # [(''other.csv'', Inr ''a,b'')]"
    by (simp add: example_zip_def)
  have h3: "\<forall>e\<in>set [(''readme.txt'', Inr ''a,b'' :: exn + bytes)]. \<not> is_csv (fst e)"
    by (simp add: is_csv_def endswith_def lower_def lower_char_def)
  have h4: "is_csv ''Report.CSV''"
    by (simp add: is_csv_def endswith_def lower_def lower_char_def)
  have h5: "is_csv ''other.csv''"
    by (simp add: is_csv_def endswith_def lower_def lower_char_def)
  have h6: "''Report.CSV'' \<notin> fst ` set [(''other.csv'', Inr ''a,b'' :: exn + bytes)]"
    by simp
  have p: "read_csv example_libs example_csv =
      Inr \<lparr>columns = [''Campaign Id'', ''Foo'', ''Sent''], rows = [[''7'', ''x'', ''3'']]\<rparr>"
    by (simp add: example_libs_def)
  have t: "to_csv example_libs d = ''Campaign__Campaign_Id,Foo,Msg_Sent'' @ [CHR 0x0A] @ ''7,x,3'' @ [CHR 0x0A]" for d
    by (simp add: example_libs_def)
  have n: "now example_libs = \<lparr>year = 2024, month = 3, day = 5, hour = 7, minute = 8, second = 9\<rparr>"
    by (simp add: example_libs_def)
  have c: "rename_headers \<lparr>columns = [''Campaign Id'', ''Foo'', ''Sent''], rows = [[''7'', ''x'', ''3'']]\<rparr>
       = \<lparr>columns = [''Campaign__Campaign_Id'', ''Foo'', ''Msg_Sent''], rows = [[''7'', ''x'', ''3'']]\<rparr>"
    by (simp add: rename_headers_def rename_def rename_dict_of_def column_mapping_def rename_label_def)
  have s: "strftime \<lparr>year = 2024, month = 3, day = 5, hour = 7, minute = 8, second = 9\<rparr> ''%Y%m%d_%H%M%S''
       = ''20240305_070809''"
    by (simp add: directive_def str_nat_lt10 str_nat_lt10000 digit_char_def)
  note sel = first_csv_name_selected [OF h1 h2 h3 h4]
  have a: "zip_reads (fst (process_zip_file example_libs ''PK'')) = [''Report.CSV'']"
    by (rule conjunct1 [OF sel])
  have b: "snd (process_zip_file example_libs ''PK'') =
       Inr (Some (\<lparr>columns = [''Campaign__Campaign_Id'', ''Foo'', ''Msg_Sent''], rows = [[''7'', ''x'', ''3'']]\<rparr>,
                ''Campaign__Campaign_Id,Foo,Msg_Sent'' @ [CHR 0x0A] @ ''7,x,3'' @ [CHR 0x0A],
                ''processed_20240305_070809.csv''))"
    using mp [OF conjunct1 [OF conjunct2 [OF sel]] h6] by (simp add: p t n c s del: strftime.simps)
  have h3': "\<not> is_csv ''readme.txt''"
    using h3 by simp
  from h1 h2 h3' h4 h5 h6 a b show ?thesis by (intro conjI)
qed

text \<open>
  The claim as the specification states it, that the first match in listing order is the
  entry extracted and parsed, fails for an archive that lists a name twice: of the two
  entries named \<^verbatim>\<open>a.csv\<close>, both passing the test, the run reads by name and returns the
  table parsed from the second, not the table of the first.
\<close>

theorem first_csv_entry_parsed_counterexample:
  "ZipFile example_libs_dup ''PK-dup'' = Inr example_zip_dup
   \<and> example_zip_dup = [] @ (''a.csv'', Inr example_csv_first) # [(''a.csv'', Inr example_csv_second)]
   \<and> namelist example_zip_dup = [''a.csv'', ''a.csv'']
   \<and> is_csv ''a.csv''
   \<and> read_csv example_libs_dup example_csv_first = Inr \<lparr>columns = [''Sent''], rows = [[''1'']]\<rparr>
   \<and> read_csv example_libs_dup example_csv_second = Inr \<lparr>columns = [''Delivered''], rows = [[''2'']]\<rparr>
   \<and> zip_reads (fst (process_zip_file example_libs_dup ''PK-dup'')) = [''a.csv'']
   \<and> snd (process_zip_file example_libs_dup ''PK-dup'') =
       Inr (Some (\<lparr>columns = [''Msg_Delivered''], rows = [[''2'']]\<rparr>,
                  ''Msg_Delivered'' @ [CHR 0x0A] @ ''2'' @ [CHR 0x0A],
                  ''processed_20240305_070809.csv''))
   \<and> snd (process_zip_file example_libs_dup ''PK-dup'') \<noteq>
       Inr (Some (rename_headers \<lparr>columns = [''Sent''], rows = [[''1'']]\<rparr>,
                  to_csv example_libs_dup (rename_headers \<lparr>columns = [''Sent''], rows = [[''1'']]\<rparr>),
                  ''processed_'' @ strftime (now example_libs_dup) ''%Y%m%d_%H%M%S'' @ ''.csv''))"
proof -
  have run: "process_zip_file example_libs_dup ''PK-dup'' =
    ([StInfo ''Found CSV file: a.csv'', ZipRead ''a.csv'',
      StWriteList ''Original columns:'' [''Delivered''],
      StWriteList ''Renamed columns:'' [''Msg_Delivered'']],
     Inr (Some (\<lparr>columns = [''Msg_Delivered''], rows = [[''2'']]\<rparr>,
                ''Msg_Delivered'' @ [CHR 0x0A] @ ''2'' @ [CHR 0x0A],
                ''processed_20240305_070809.csv'')))"
    by (simp add: process_zip_file_def example_libs_dup_def example_zip_dup_def
        example_csv_first_def example_csv_second_def namelist_def read_def
        is_csv_def endswith_def lower_def lower_char_def rename_def rename_dict_of_def
        column_mapping_def rename_label_def directive_def str_nat_lt10 str_nat_lt10000
        digit_char_def Let_def)
  have first: "rename_headers \<lparr>columns = [''Sent''], rows = [[''1'']]\<rparr>
      = \<lparr>columns = [''Msg_Sent''], rows = [[''1'' :: string]]\<rparr>"
    by (simp add: rename_headers_def rename_def rename_dict_of_def column_mapping_def rename_label_def)
  show ?thesis
    unfolding run first
    by (simp add: example_libs_dup_def example_zip_dup_def example_csv_first_def
        example_csv_second_def namelist_def is_csv_def endswith_def lower_def lower_char_def)
qed

section \<open>An archive with no CSV entry\<close>

lemma process_zip_file_no_csv:
  assumes "ZipFile L b = Inr z" and "\<forall>f\<in>set (namelist z). \<not> is_csv f"
  shows "process_zip_file L b = ([StError ''No CSV files found in the ZIP archive''], Inr None)"
proof -
  have "filter is_csv (namelist z) = []"
    using assms(2) by (simp add: filter_empty_conv)
  then show ?thesis
    using assms(1) by (simp add: process_zip_file_def)
qed

text \<open>
  C4. For an archive that opens and lists no name ending in \<^verbatim>\<open>.csv\<close> (in any case),
  \<^verbatim>\<open>process_zip_file\<close> reports the error message, reads no entry and returns no table,
  and the page shows the error and nothing after it: no preview, no download link, no
  metrics.
\<close>

theorem no_csv_entry_reported:
  assumes "ZipFile L b = Inr z" and "\<forall>f\<in>set (namelist z). \<not> is_csv f"
  shows "process_zip_file L b = ([StError ''No CSV files found in the ZIP archive''], Inr None)
    \<and> main L (Some b) True =
        ([StTitle ''ZIP CSV Processor'',
          StWrite ''Upload a ZIP file containing a CSV to process and rename the headers.'',
          StFileUploader ''Choose a ZIP file'',
          StSuccess ''File uploaded successfully!'',
          StButton ''Process ZIP File'',
          StSpinner ''Processing...'',
          StError ''No CSV files found in the ZIP archive''], Inr ())"
  by (simp add: process_zip_file_no_csv [OF assms] main_def)

theorem no_csv_entry_reported_witness:
  "ZipFile example_libs ''PK-plain'' = Inr example_zip_plain
   \<and> namelist example_zip_plain = [''readme.txt'', ''data.csv.bak'', ''csv'']
   \<and> \<not> is_csv ''readme.txt'' \<and> \<not> is_csv ''data.csv.bak'' \<and> \<not> is_csv ''csv''
   \<and> process_zip_file example_libs ''PK-plain'' =
        ([StError ''No CSV files found in the ZIP archive''], Inr None)
   \<and> main example_libs (Some ''PK-plain'') True =
        ([StTitle ''ZIP CSV Processor'',
          StWrite ''Upload a ZIP file containing a CSV to process and rename the headers.'',
          StFileUploader ''Choose a ZIP file'',
          StSuccess ''File uploaded successfully!'',
          StButton ''Process ZIP File'',
          StSpinner ''Processing...'',
          StError ''No CSV files found in the ZIP archive''], Inr ())"
proof -
  have h1: "ZipFile example_libs ''PK-plain'' = Inr example_zip_plain"
    by (simp add: example_libs_def)
  have h2: "\<forall>f\<in>set (namelist example_zip_plain). \<not> is_csv f"
    by (simp add: example_zip_plain_def namelist_def is_csv_def endswith_def lower_def lower_char_def)
  have h3: "namelist example_zip_plain = [''readme.txt'', ''data.csv.bak'', ''csv'']"
    by (simp add: example_zip_plain_def namelist_def)
  have h4: "\<not> is_csv ''readme.txt''" "\<not> is_csv ''data.csv.bak''" "\<not> is_csv ''csv''"
    using h2 by (simp_all add: h3)
  note run = no_csv_entry_reported [OF h1 h2]
  from h1 h3 h4 conjunct1 [OF run] conjunct2 [OF run] show ?thesis by (intro conjI)
qed

section \<open>The summary metrics\<close>

lemma load_name_rename_dict:
  "load_name [(''uploaded_file'', u), (''processed_df'', p), (''csv_string'', c), (''filename'', f),
              (''col1'', c1), (''col2'', c2)] ''rename_dict'' = Inl (NameError ''rename_dict'')"
  by (simp add: load_name_def module_scope_def builtin_scope_def)

lemma process_zip_file_no_metric:
  "StMetric k v \<notin> set (fst (process_zip_file L b))"
  by (auto simp: process_zip_file_def Let_def split: sum.splits list.splits)

text \<open>
  C1. When \<^verbatim>\<open>process_zip_file\<close> returns a table, \<^verbatim>\<open>main\<close> shows the preview, the download
  link, the row count and the column count, and then raises \<^verbatim>\<open>NameError\<close> at line 124:
  \<^verbatim>\<open>rename_dict\<close> is a local variable of \<^verbatim>\<open>process_zip_file\<close> and is not bound in
  \<^verbatim>\<open>main\<close>. The metric Columns Renamed is never shown.
\<close>

theorem columns_renamed_metric_never_shown:
  assumes "snd (process_zip_file L content) = Inr (Some (df, csv_string, filename))"
  shows "main L (Some content) True =
      ([StTitle ''ZIP CSV Processor'',
        StWrite ''Upload a ZIP file containing a CSV to process and rename the headers.'',
        StFileUploader ''Choose a ZIP file'',
        StSuccess ''File uploaded successfully!'',
        StButton ''Process ZIP File'',
        StSpinner ''Processing...'']
       @ fst (process_zip_file L content) @
       [StSubheader ''Preview of Processed Data'',
        StDataframe (head_df df),
        StSubheader ''Download Result'',
        StMarkdown (get_download_link L csv_string filename),
        StSubheader ''Data Statistics'',
        StWrite (''Total rows: '' @ str_nat (len_df df)),
        StWrite (''Total columns: '' @ str_nat (length (columns df))),
        StColumns 2,
        StMetric ''Rows Processed'' (format_comma (len_df df))],
       Inl (NameError ''rename_dict''))
    \<and> StMetric ''Columns Renamed'' v \<notin> set (fst (main L (Some content) True))"
proof -
  have run: "main L (Some content) True =
      ([StTitle ''ZIP CSV Processor'',
        StWrite ''Upload a ZIP file containing a CSV to process and rename the headers.'',
        StFileUploader ''Choose a ZIP file'',
        StSuccess ''File uploaded successfully!'',
        StButton ''Process ZIP File'',
        StSpinner ''Processing...'']
       @ fst (process_zip_file L content) @
       [StSubheader ''Preview of Processed Data'',
        StDataframe (head_df df),
        StSubheader ''Download Result'',
        StMarkdown (get_download_link L csv_string filename),
        StSubheader ''Data Statistics'',
        StWrite (''Total rows: '' @ str_nat (len_df df)),
        StWrite (''Total columns: '' @ str_nat (length (columns df))),
        StColumns 2,
        StMetric ''Rows Processed'' (format_comma (len_df df))],
       Inl (NameError ''rename_dict''))"
    using assms by (simp add: main_def Let_def load_name_rename_dict)
  have "StMetric ''Columns Renamed'' v \<notin> set (fst (main L (Some content) True))"
    unfolding run using process_zip_file_no_metric [of "''Columns Renamed''" v L content] by simp
  with run show ?thesis by simp
qed

theorem columns_renamed_metric_never_shown_witness:
  "snd (process_zip_file example_libs ''PK'') =
     Inr (Some (\<lparr>columns = [''Campaign__Campaign_Id'', ''Foo'', ''Msg_Sent''], rows = [[''7'', ''x'', ''3'']]\<rparr>,
                ''Campaign__Campaign_Id,Foo,Msg_Sent'' @ [CHR 0x0A] @ ''7,x,3'' @ [CHR 0x0A],
                ''processed_20240305_070809.csv''))
   \<and> snd (main example_libs (Some ''PK'') True) = Inl (NameError ''rename_dict'')
   \<and> StMetric ''Columns Renamed'' ''2'' \<notin> set (fst (main example_libs (Some ''PK'') True))"
proof -
  have h: "snd (process_zip_file example_libs ''PK'') =
     Inr (Some (\<lparr>columns = [''Campaign__Campaign_Id'', ''Foo'', ''Msg_Sent''], rows = [[''7'', ''x'', ''3'']]\<rparr>,
                ''Campaign__Campaign_Id,Foo,Msg_Sent'' @ [CHR 0x0A] @ ''7,x,3'' @ [CHR 0x0A],
                ''processed_20240305_070809.csv''))"
    by (simp add: example_run)
  note run = columns_renamed_metric_never_shown [OF h, of "''2''"]
  have a: "snd (main example_libs (Some ''PK'') True) = Inl (NameError ''rename_dict'')"
    by (simp add: conjunct1 [OF run])
  have b: "StMetric ''Columns Renamed'' ''2'' \<notin> set (fst (main example_libs (Some ''PK'') True))"
    by (rule conjunct2 [OF run])
  from h a b show ?thesis by (intro conjI)
qed


end
